theory Spec2Isabelle
  imports Complex_Main "HOL-Library.Sublist"
begin

section \<open>Texts\<close>

text \<open>
  A JavaScript string is modelled by the list of bytes of its UTF-8 encoding, so an ASCII
  text is the list of its characters. Comparison, \<open>startsWith\<close>, \<open>endsWith\<close>,
  \<open>includes\<close> and \<open>split\<close> with the ASCII arguments this program uses give the same
  answer on the bytes as on the UTF-16 code units.
\<close>

text \<open>\<open>s.includes(needle)\<close>: \<open>needle\<close> occurs in \<open>s\<close> as a contiguous piece.\<close>

fun str_includes :: "string \<Rightarrow> string \<Rightarrow> bool" where
  "str_includes [] needle = (needle = [])"
| "str_includes (c # cs) needle = (prefix needle (c # cs) \<or> str_includes cs needle)"

text \<open>\<open>s.startsWith(p)\<close> and \<open>s.endsWith(p)\<close>.\<close>

definition startsWith :: "string \<Rightarrow> string \<Rightarrow> bool" where
  "startsWith s p = prefix p s"

definition endsWith :: "string \<Rightarrow> string \<Rightarrow> bool" where
  "endsWith s p = suffix p s"


text \<open>
  \<open>s.split(sep)\<close> for a separator that is not empty, the only kind the program uses
  (\<open>'\n'\<close>, \<open>'=='\<close>, \<open>'>='\<close>): the pieces between the occurrences of \<open>sep\<close>, found from
  the left without overlap. \<open>acc\<close> is the current piece, reversed.
\<close>

function split_acc :: "string \<Rightarrow> string \<Rightarrow> string \<Rightarrow> string list" where
  "split_acc sep acc [] = [rev acc]"
| "split_acc sep acc (c # cs) =
     (if sep \<noteq> [] \<and> prefix sep (c # cs)
      then rev acc # split_acc sep [] (drop (length sep) (c # cs))
      else split_acc sep (c # acc) cs)"
  by pat_completeness auto
termination
  by (relation "measure (\<lambda>(sep, acc, s). length s)") (auto simp: neq_Nil_conv)

definition split :: "string \<Rightarrow> string \<Rightarrow> string list" where
  "split s sep = split_acc sep [] s"

text \<open>
  \<open>parts[0]\<close> of a split result. The result of \<open>split\<close> is never empty
  (lemma \<open>split_not_empty\<close>), so the second case is never taken.
\<close>

definition first_piece :: "string list \<Rightarrow> string" where
  "first_piece parts = (case parts of p # _ \<Rightarrow> p | [] \<Rightarrow> [])"

text \<open>
  \<open>s.trim()\<close> removes white space and line terminators at both ends: the ASCII ones and
  the Unicode ones, each given here by its UTF-8 bytes (U+00A0, U+1680, U+2000 to U+200A,
  U+2028, U+2029, U+202F, U+205F, U+3000, U+FEFF).
\<close>

definition white_space :: "string list" where
  "white_space =
     [[CHR 0x09], [CHR 0x0A], [CHR 0x0B], [CHR 0x0C], [CHR 0x0D], [CHR 0x20],
      [CHR 0xC2, CHR 0xA0], [CHR 0xE1, CHR 0x9A, CHR 0x80],
      [CHR 0xE2, CHR 0x80, CHR 0x80], [CHR 0xE2, CHR 0x80, CHR 0x81],
      [CHR 0xE2, CHR 0x80, CHR 0x82], [CHR 0xE2, CHR 0x80, CHR 0x83],
      [CHR 0xE2, CHR 0x80, CHR 0x84], [CHR 0xE2, CHR 0x80, CHR 0x85],
      [CHR 0xE2, CHR 0x80, CHR 0x86], [CHR 0xE2, CHR 0x80, CHR 0x87],
      [CHR 0xE2, CHR 0x80, CHR 0x88], [CHR 0xE2, CHR 0x80, CHR 0x89],
      [CHR 0xE2, CHR 0x80, CHR 0x8A], [CHR 0xE2, CHR 0x80, CHR 0xA8],
      [CHR 0xE2, CHR 0x80, CHR 0xA9], [CHR 0xE2, CHR 0x80, CHR 0xAF],
      [CHR 0xE2, CHR 0x81, CHR 0x9F], [CHR 0xE3, CHR 0x80, CHR 0x80],
      [CHR 0xEF, CHR 0xBB, CHR 0xBF]]"

text \<open>The number of bytes of the white-space character at the head of \<open>s\<close>, 0 if none.\<close>

definition ws_head :: "string list \<Rightarrow> string \<Rightarrow> nat" where
  "ws_head table s = (case find (\<lambda>w. prefix w s) table of Some w \<Rightarrow> length w | None \<Rightarrow> 0)"

function strip_head :: "string list \<Rightarrow> string \<Rightarrow> string" where
  "strip_head table s =
     (if ws_head table s = 0 \<or> s = [] then s else strip_head table (drop (ws_head table s) s))"
  by pat_completeness auto
termination
  by (relation "measure (\<lambda>(table, s). length s)") auto

declare strip_head.simps [simp del]

definition trimStart :: "string \<Rightarrow> string" where
  "trimStart s = strip_head white_space s"

definition trimEnd :: "string \<Rightarrow> string" where
  "trimEnd s = rev (strip_head (map rev white_space) (rev s))"

definition trim :: "string \<Rightarrow> string" where
  "trim s = trimEnd (trimStart s)"

text \<open>The decimal digits of a natural number, as a template literal prints it.\<close>

definition digit_char :: "nat \<Rightarrow> char" where
  "digit_char d = char_of (48 + d)"

function show_nat :: "nat \<Rightarrow> string" where
  "show_nat n = (if n < 10 then [digit_char n] else show_nat (n div 10) @ [digit_char (n mod 10)])"
  by pat_completeness auto
termination
  by (relation "measure id") auto

declare show_nat.simps [simp del]

definition is_digit :: "char \<Rightarrow> bool" where
  "is_digit c = (48 \<le> (of_char c :: nat) \<and> (of_char c :: nat) \<le> 57)"

text \<open>The number that a run of decimal digits denotes.\<close>

definition digit_val :: "char \<Rightarrow> int" where
  "digit_val c = of_char c - 48"

definition digits_val :: "string \<Rightarrow> int" where
  "digits_val ds = foldl (\<lambda>a c. 10 * a + digit_val c) 0 ds"

section \<open>JSON values\<close>

text \<open>
  The values \<open>JSON.parse\<close> can return. A number keeps the exact value of its literal,
  \<open>JNum m e\<close> standing for \<open>m * 10 ^ e\<close>; an object keeps its members as written, in
  order and with repeated keys, and the functions below read it as JavaScript does.
\<close>

datatype json =
    JNull
  | JBool bool
  | JNum int int
  | JStr string
  | JArr "json list"
  | JObj "(string \<times> json) list"

text \<open>The exceptions of the language that the modelled code can raise.\<close>

datatype error = SyntaxError | TypeError | AnalysisFailed error | PackagingFailed

subsection \<open>JSON.parse\<close>

datatype token =
    TLBrace | TRBrace | TLBracket | TRBracket | TColon | TComma
  | TString string | TNumber int int | TTrue | TFalse | TNull

definition hex_val :: "char \<Rightarrow> int option" where
  "hex_val c =
     (if is_digit c then Some (of_char c - 48)
      else if 97 \<le> (of_char c :: nat) \<and> (of_char c :: nat) \<le> 102 then Some (of_char c - 87)
      else if 65 \<le> (of_char c :: nat) \<and> (of_char c :: nat) \<le> 70 then Some (of_char c - 55)
      else None)"

definition hex4 :: "char \<Rightarrow> char \<Rightarrow> char \<Rightarrow> char \<Rightarrow> int option" where
  "hex4 a b c d =
     (case (hex_val a, hex_val b, hex_val c, hex_val d) of
        (Some x, Some y, Some z, Some w) \<Rightarrow> Some (((x * 16 + y) * 16 + z) * 16 + w)
      | _ \<Rightarrow> None)"

text \<open>The UTF-8 bytes of a code point (a lone surrogate is written like any other).\<close>

definition utf8 :: "int \<Rightarrow> string" where
  "utf8 u =
     (if u < 0x80 then [char_of u]
      else if u < 0x800 then [char_of (0xC0 + u div 64), char_of (0x80 + u mod 64)]
      else if u < 0x10000 then
        [char_of (0xE0 + u div 4096), char_of (0x80 + (u div 64) mod 64),
         char_of (0x80 + u mod 64)]
      else
        [char_of (0xF0 + u div 262144), char_of (0x80 + (u div 4096) mod 64),
         char_of (0x80 + (u div 64) mod 64), char_of (0x80 + u mod 64)])"

text \<open>
  The low half of a surrogate pair written as an escape right at the head of \<open>s\<close>, with
  what follows it.
\<close>

definition low_surrogate :: "string \<Rightarrow> (int \<times> string) option" where
  "low_surrogate s =
     (case s of
        b # u # h1 # h2 # h3 # h4 # r \<Rightarrow>
          (if b = CHR 0x5C \<and> u = CHR ''u'' then
             (case hex4 h1 h2 h3 h4 of
                Some l \<Rightarrow> if 0xDC00 \<le> l \<and> l \<le> 0xDFFF then Some (l, r) else None
              | None \<Rightarrow> None)
           else None)
      | _ \<Rightarrow> None)"

text \<open>
  The body of a string literal after its opening quote: the text it denotes and what
  follows the closing quote. \<open>acc\<close> is the text so far, reversed.
\<close>

function lex_string :: "string \<Rightarrow> string \<Rightarrow> (string \<times> string) option" where
  "lex_string acc [] = None"
| "lex_string acc (c # cs) =
     (if c = CHR 0x22 then Some (rev acc, cs)
      else if c = CHR 0x5C then
        (case cs of
           [] \<Rightarrow> None
         | e # r \<Rightarrow>
             if e = CHR 0x22 \<or> e = CHR 0x5C \<or> e = CHR ''/'' then lex_string (e # acc) r
             else if e = CHR ''b'' then lex_string (CHR 0x08 # acc) r
             else if e = CHR ''f'' then lex_string (CHR 0x0C # acc) r
             else if e = CHR ''n'' then lex_string (CHR 0x0A # acc) r
             else if e = CHR ''r'' then lex_string (CHR 0x0D # acc) r
             else if e = CHR ''t'' then lex_string (CHR 0x09 # acc) r
             else if e = CHR ''u'' then
               (case r of
                  h1 # h2 # h3 # h4 # r' \<Rightarrow>
                    (case hex4 h1 h2 h3 h4 of
                       None \<Rightarrow> None
                     | Some u \<Rightarrow>
                         if 0xD800 \<le> u \<and> u \<le> 0xDBFF \<and> low_surrogate r' \<noteq> None
                         then lex_string
                                (rev (utf8 (0x10000 + (u - 0xD800) * 1024 +
                                            (fst (the (low_surrogate r')) - 0xDC00))) @ acc)
                                (drop 6 r')
                         else lex_string (rev (utf8 u) @ acc) r')
                | _ \<Rightarrow> None)
             else None)
      else if (of_char c :: nat) < 0x20 then None
      else lex_string (c # acc) cs)"
  by pat_completeness auto
termination
  by (relation "measure (\<lambda>(acc, s). length s)") auto

text \<open>
  A number literal at the head of \<open>s\<close>: an optional minus, an integer part without
  leading zero, an optional fraction, an optional exponent.
\<close>

definition lex_number :: "string \<Rightarrow> (token \<times> string) option" where
  "lex_number s =
     (let neg = (case s of c # _ \<Rightarrow> c = CHR ''-'' | [] \<Rightarrow> False);
          s1 = (if neg then drop 1 s else s);
          ip = (case s1 of c # _ \<Rightarrow> if c = CHR ''0'' then [c] else takeWhile is_digit s1
                         | [] \<Rightarrow> []);
          s2 = drop (length ip) s1;
          has_frac = (case s2 of c # _ \<Rightarrow> c = CHR ''.'' | [] \<Rightarrow> False);
          fp = (if has_frac then takeWhile is_digit (drop 1 s2) else []);
          s3 = (if has_frac then drop (1 + length fp) s2 else s2);
          has_exp = (case s3 of c # _ \<Rightarrow> c = CHR ''e'' \<or> c = CHR ''E'' | [] \<Rightarrow> False);
          s4 = (if has_exp then drop 1 s3 else s3);
          eneg = (has_exp \<and> (case s4 of c # _ \<Rightarrow> c = CHR ''-'' | [] \<Rightarrow> False));
          esigned = (has_exp \<and> (case s4 of c # _ \<Rightarrow> c = CHR ''-'' \<or> c = CHR ''+'' | [] \<Rightarrow> False));
          s5 = (if esigned then drop 1 s4 else s4);
          ep = (if has_exp then takeWhile is_digit s5 else []);
          s6 = drop (length ep) s5;
          m = digits_val (ip @ fp);
          ex = digits_val ep
      in if ip = [] \<or> (has_frac \<and> fp = []) \<or> (has_exp \<and> ep = []) then None
         else Some (TNumber (if neg then - m else m)
                            ((if eneg then - ex else ex) - int (length fp)), s6))"

definition json_space :: "char \<Rightarrow> bool" where
  "json_space c = (c = CHR 0x20 \<or> c = CHR 0x09 \<or> c = CHR 0x0A \<or> c = CHR 0x0D)"

text \<open>
  The tokens of a text. A step that reads a string or a number goes on with what the
  lexer left, which is shorter than the input; the test on the lengths tells the
  definition so and never fails (lemmas \<open>lex_string_shorter\<close>, \<open>lex_number_shorter\<close>).
\<close>

function tokenize :: "string \<Rightarrow> token list option" where
  "tokenize [] = Some []"
| "tokenize (c # cs) =
     (if json_space c then tokenize cs
      else if c = CHR ''{'' then map_option (Cons TLBrace) (tokenize cs)
      else if c = CHR ''}'' then map_option (Cons TRBrace) (tokenize cs)
      else if c = CHR ''['' then map_option (Cons TLBracket) (tokenize cs)
      else if c = CHR '']'' then map_option (Cons TRBracket) (tokenize cs)
      else if c = CHR '':'' then map_option (Cons TColon) (tokenize cs)
      else if c = CHR '','' then map_option (Cons TComma) (tokenize cs)
      else if c = CHR 0x22 then
        (case lex_string [] cs of
           None \<Rightarrow> None
         | Some (s, r) \<Rightarrow>
             if length r \<le> length cs then map_option (Cons (TString s)) (tokenize r) else None)
      else if c = CHR ''-'' \<or> is_digit c then
        (case lex_number (c # cs) of
           None \<Rightarrow> None
         | Some (t, r) \<Rightarrow>
             if length r \<le> length cs then map_option (Cons t) (tokenize r) else None)
      else if prefix ''true'' (c # cs) then map_option (Cons TTrue) (tokenize (drop 3 cs))
      else if prefix ''false'' (c # cs) then map_option (Cons TFalse) (tokenize (drop 4 cs))
      else if prefix ''null'' (c # cs) then map_option (Cons TNull) (tokenize (drop 3 cs))
      else None)"
  by pat_completeness auto
termination
  by (relation "measure length") auto

text \<open>
  The parser reads the tokens one at a time, with the arrays and objects that are still
  open on a stack (their elements and members so far, reversed).
\<close>

datatype frame =
    FArr "json list"
  | FObj "(string \<times> json) list"
  | FKey "(string \<times> json) list" string

datatype mode = MValue | MValueOrClose | MKeyOrClose | MKey | MColon | MAfter json

fun start_value :: "frame list \<Rightarrow> token \<Rightarrow> (mode \<times> frame list) option" where
  "start_value st TLBrace = Some (MKeyOrClose, FObj [] # st)"
| "start_value st TLBracket = Some (MValueOrClose, FArr [] # st)"
| "start_value st (TString s) = Some (MAfter (JStr s), st)"
| "start_value st (TNumber m e) = Some (MAfter (JNum m e), st)"
| "start_value st TTrue = Some (MAfter (JBool True), st)"
| "start_value st TFalse = Some (MAfter (JBool False), st)"
| "start_value st TNull = Some (MAfter JNull, st)"
| "start_value st _ = None"

fun parse_step :: "mode \<Rightarrow> frame list \<Rightarrow> token \<Rightarrow> (mode \<times> frame list) option" where
  "parse_step MValue st t = start_value st t"
| "parse_step MValueOrClose (FArr vs # st) TRBracket = Some (MAfter (JArr (rev vs)), st)"
| "parse_step MValueOrClose st t = start_value st t"
| "parse_step MKeyOrClose (FObj ms # st) TRBrace = Some (MAfter (JObj (rev ms)), st)"
| "parse_step MKeyOrClose (FObj ms # st) (TString k) = Some (MColon, FKey ms k # st)"
| "parse_step MKey (FObj ms # st) (TString k) = Some (MColon, FKey ms k # st)"
| "parse_step MColon st TColon = Some (MValue, st)"
| "parse_step (MAfter v) (FArr vs # st) TComma = Some (MValue, FArr (v # vs) # st)"
| "parse_step (MAfter v) (FArr vs # st) TRBracket = Some (MAfter (JArr (rev (v # vs))), st)"
| "parse_step (MAfter v) (FKey ms k # st) TComma = Some (MKey, FObj ((k, v) # ms) # st)"
| "parse_step (MAfter v) (FKey ms k # st) TRBrace =
     Some (MAfter (JObj (rev ((k, v) # ms))), st)"
| "parse_step _ _ _ = None"

fun parse_tokens :: "mode \<Rightarrow> frame list \<Rightarrow> token list \<Rightarrow> json option" where
  "parse_tokens m st [] = (case (m, st) of (MAfter v, []) \<Rightarrow> Some v | _ \<Rightarrow> None)"
| "parse_tokens m st (t # ts) =
     (case parse_step m st t of
        None \<Rightarrow> None
      | Some (m', st') \<Rightarrow> parse_tokens m' st' ts)"

text \<open>\<open>JSON.parse(text)\<close>; \<open>None\<close> is the \<open>SyntaxError\<close> it throws.\<close>

definition JSON_parse :: "string \<Rightarrow> json option" where
  "JSON_parse s = (case tokenize s of None \<Rightarrow> None | Some ts \<Rightarrow> parse_tokens MValue [] ts)"

subsection \<open>Reading values\<close>

text \<open>
  A number is falsy when its double is zero: the literal is zero or is rounded to zero,
  which happens up to \<open>2 ^ -1075\<close>, half of the smallest double.
\<close>

definition num_nonzero :: "int \<Rightarrow> int \<Rightarrow> bool" where
  "num_nonzero m e = (m \<noteq> 0 \<and> (0 \<le> e \<or> 10 ^ nat (- e) < \<bar>m\<bar> * 2 ^ 1075))"

fun truthy :: "json \<Rightarrow> bool" where
  "truthy JNull = False"
| "truthy (JBool b) = b"
| "truthy (JNum m e) = num_nonzero m e"
| "truthy (JStr s) = (s \<noteq> [])"
| "truthy (JArr vs) = True"
| "truthy (JObj ms) = True"

text \<open>
  \<open>v.k\<close> for the property names the program reads (\<open>engines\<close>, \<open>node\<close>, \<open>dependencies\<close>,
  \<open>devDependencies\<close>, \<open>scripts\<close>), none of which a string, a number, a boolean or an array
  has: \<open>None\<close> is \<open>undefined\<close>. Reading a property of \<open>null\<close> throws, which the callers
  test before. Of a repeated key the last member counts.
\<close>

fun get_field :: "json \<Rightarrow> string \<Rightarrow> json option" where
  "get_field (JObj ms) k = map_of (rev ms) k"
| "get_field _ k = None"

text \<open>
  A key that is an array index (the decimal form of a number up to \<open>2 ^ 32 - 2\<close>) is
  enumerated before the other keys, in numeric order; the other keys come in the order
  of their first appearance.
\<close>

definition is_index :: "string \<Rightarrow> bool" where
  "is_index k =
     (k \<noteq> [] \<and> list_all is_digit k \<and> (k = ''0'' \<or> take 1 k \<noteq> ''0'') \<and>
      digits_val k \<le> 4294967294)"

definition own_keys :: "(string \<times> json) list \<Rightarrow> string list" where
  "own_keys ms =
     (let ks = rev (remdups (rev (map fst ms)))
      in sort_key digits_val (filter is_index ks) @ filter (\<lambda>k. \<not> is_index k) ks)"

text \<open>
  The number of UTF-16 code units of a text: one for each character, two for a
  character outside the basic plane (four bytes in UTF-8).
\<close>

definition utf16_length :: "string \<Rightarrow> nat" where
  "utf16_length s =
     length (filter (\<lambda>c. (of_char c :: nat) < 0x80 \<or> 0xC0 \<le> (of_char c :: nat)) s) +
     length (filter (\<lambda>c. 0xF0 \<le> (of_char c :: nat)) s)"

text \<open>\<open>Object.keys(v)\<close> for a value that is neither \<open>null\<close> nor \<open>undefined\<close>.\<close>

fun Object_keys :: "json \<Rightarrow> string list" where
  "Object_keys (JObj ms) = own_keys ms"
| "Object_keys (JArr vs) = map show_nat [0..<length vs]"
| "Object_keys (JStr s) = map show_nat [0..<utf16_length s]"
| "Object_keys _ = []"

subsection \<open>Template literals\<close>



section \<open>Regular expressions of the analyzer\<close>

text \<open>
  \<open>s.match(re)\<close> without the global flag tries the positions of \<open>s\<close> from the left and
  stops at the first one where the expression matches.
\<close>

fun first_match :: "(string \<Rightarrow> 'a option) \<Rightarrow> string \<Rightarrow> 'a option" where
  "first_match here [] = here []"
| "first_match here (c # cs) =
     (case here (c # cs) of Some v \<Rightarrow> Some v | None \<Rightarrow> first_match here cs)"

text \<open>
  \<open>/go (\d+\.\d+)/\<close> at the head of \<open>s\<close>, giving group 1: each \<open>\d+\<close> takes all the
  digits there are, since a shorter run is followed by a digit, which is not what comes
  next in the expression.
\<close>

definition go_version_at :: "string \<Rightarrow> string option" where
  "go_version_at s =
     (if prefix ''go '' s then
        (let d1 = takeWhile is_digit (drop 3 s);
             r1 = drop (length d1) (drop 3 s)
         in case r1 of
              [] \<Rightarrow> None
            | c # r2 \<Rightarrow>
                (let d2 = takeWhile is_digit r2
                 in if d1 \<noteq> [] \<and> c = CHR ''.'' \<and> d2 \<noteq> [] then Some (d1 @ ''.'' @ d2)
                    else None))
      else None)"

text \<open>
  \<open>/ruby ['"](.+?)['"]/\<close> at the head of \<open>s\<close>, giving group 1: after the opening quote
  one character of any kind, then as few as possible up to the next quote, none of
  them a line terminator (\<open>\n\<close>, \<open>\r\<close>, U+2028, U+2029).
\<close>

definition is_quote :: "char \<Rightarrow> bool" where
  "is_quote c = (c = CHR 0x27 \<or> c = CHR 0x22)"

definition has_line_terminator :: "string \<Rightarrow> bool" where
  "has_line_terminator s =
     (CHR 0x0A \<in> set s \<or> CHR 0x0D \<in> set s \<or>
      str_includes s [CHR 0xE2, CHR 0x80, CHR 0xA8] \<or>
      str_includes s [CHR 0xE2, CHR 0x80, CHR 0xA9])"

definition ruby_version_at :: "string \<Rightarrow> string option" where
  "ruby_version_at s =
     (if prefix ''ruby '' s then
        (case drop 5 s of
           q # c1 # rest \<Rightarrow>
             (let body = c1 # takeWhile (\<lambda>c. \<not> is_quote c) rest
              in if is_quote q \<and> dropWhile (\<lambda>c. \<not> is_quote c) rest \<noteq> [] \<and>
                    \<not> has_line_terminator body
                 then Some body else None)
         | _ \<Rightarrow> None)
      else None)"

section \<open>Data model\<close>

text \<open>
  The objects of the program are records; a field \<open>x\<close> of the source is written with the
  initial of its object in front (\<open>f_path\<close> for \<open>file.path\<close>, \<open>s_port\<close> for
  \<open>service.port\<close>), because several objects have a field \<open>name\<close>.
\<close>

text \<open>An entry of the file listing, as \<open>fetchFileStructure\<close> pushes it.\<close>

record file_entry =
  f_path :: string
  f_name :: string
  f_size :: nat

text \<open>A service entry, as \<open>detectServices\<close> pushes it.\<close>

record service_entry =
  s_name :: string
  s_type :: string
  s_port :: nat

text \<open>
  A stack entry, as \<open>detectTechStack\<close> pushes it. The version of the Node.js entry is
  whatever value the package descriptor gives, so a version is a JSON value; the fields
  that only some entries have are optional.
\<close>

record tech_entry =
  t_name :: string
  t_icon :: string
  t_version :: json
  t_dependencies :: "string list option"
  t_devDependencies :: "string list option"
  t_scripts :: "json option"
  t_buildTool :: "string option"

text \<open>The result of \<open>analyzeRepository\<close>, which the generator calls \<open>repoData\<close>.\<close>

record repo_data =
  r_owner :: string
  r_name :: string
  r_description :: string
  r_files :: "string list"
  r_techStack :: "tech_entry list"
  r_services :: "service_entry list"
  r_ports :: "nat list"
  r_hasDocker :: bool
  r_hasTests :: bool
  r_estimatedSetupTime :: string

section \<open>RepositoryAnalyzer\<close>

subsection \<open>detectTechStack\<close>

text \<open>
  \<open>fetchFileContent\<close> asks the hosting service; \<open>fetch\<close> stands for it, a file name
  giving the content, or \<open>None\<close> when the request throws, which the loop catches.
\<close>

definition keyFiles :: "string list" where
  "keyFiles =
     [''package.json'', ''requirements.txt'', ''Gemfile'', ''go.mod'', ''pom.xml'',
      ''build.gradle'', ''Cargo.toml'', ''composer.json'', ''pubspec.yaml'']"

definition fetchConfigFiles ::
  "(string \<Rightarrow> string option) \<Rightarrow> file_entry list \<Rightarrow> (string \<Rightarrow> string option)" where
  "fetchConfigFiles fetch files =
     foldl (\<lambda>configFiles fileName.
              if list_ex (\<lambda>f. f_path f = fileName) files then
                (case fetch fileName of
                   Some content \<Rightarrow> configFiles(fileName \<mapsto> content)
                 | None \<Rightarrow> configFiles)
              else configFiles)
           Map.empty keyFiles"

text \<open>\<open>if (configFiles[k])\<close>: the content was fetched and is not the empty string.\<close>

definition present :: "(string \<Rightarrow> string option) \<Rightarrow> string \<Rightarrow> bool" where
  "present configFiles k = (case configFiles k of Some content \<Rightarrow> content \<noteq> [] | None \<Rightarrow> False)"

definition content_of :: "(string \<Rightarrow> string option) \<Rightarrow> string \<Rightarrow> string" where
  "content_of configFiles k = (case configFiles k of Some content \<Rightarrow> content | None \<Rightarrow> [])"

text \<open>\<open>x || d\<close> for a property that may be missing.\<close>

definition or_default :: "json option \<Rightarrow> json \<Rightarrow> json" where
  "or_default x d = (case x of Some v \<Rightarrow> if truthy v then v else d | None \<Rightarrow> d)"

text \<open>\<open>packageJson.engines?.node\<close>.\<close>

definition engines_node :: "json \<Rightarrow> json option" where
  "engines_node packageJson =
     (case get_field packageJson ''engines'' of
        None \<Rightarrow> None
      | Some engines \<Rightarrow> if engines = JNull then None else get_field engines ''node'')"

text \<open>
  The Node.js entry from the parsed package descriptor. \<open>JSON.parse\<close> may return
  \<open>null\<close>, and reading \<open>packageJson.engines\<close> then throws a \<open>TypeError\<close>.
\<close>

definition nodeEntry :: "json \<Rightarrow> error + tech_entry" where
  "nodeEntry packageJson =
     (if packageJson = JNull then Inl TypeError
      else Inr \<lparr>t_name = ''Node.js'',
                t_icon = [CHR 0xF0, CHR 0x9F, CHR 0x9F, CHR 0xA2],
                t_version = or_default (engines_node packageJson) (JStr ''>=16.0.0''),
                t_dependencies =
                  Some (take 8 (Object_keys
                    (or_default (get_field packageJson ''dependencies'') (JObj [])))),
                t_devDependencies =
                  Some (take 5 (Object_keys
                    (or_default (get_field packageJson ''devDependencies'') (JObj [])))),
                t_scripts = Some (or_default (get_field packageJson ''scripts'') (JObj [])),
                t_buildTool = None\<rparr>)"

text \<open>An entry with a name, a glyph and a fixed version only.\<close>

definition plainEntry :: "string \<Rightarrow> string \<Rightarrow> string \<Rightarrow> tech_entry" where
  "plainEntry n icon v =
     \<lparr>t_name = n, t_icon = icon, t_version = JStr v, t_dependencies = None,
      t_devDependencies = None, t_scripts = None, t_buildTool = None\<rparr>"

definition requirements_of :: "string \<Rightarrow> string list" where
  "requirements_of content =
     take 10 (filter (\<lambda>line. trim line \<noteq> [] \<and> \<not> startsWith line ''#'')
                     (split content [CHR 0x0A]))"

definition requirement_name :: "string \<Rightarrow> string" where
  "requirement_name req = trim (first_piece (split (first_piece (split req ''=='')) ''>=''))"

definition pythonEntry :: "string \<Rightarrow> tech_entry" where
  "pythonEntry content =
     (plainEntry ''Python'' [CHR 0xF0, CHR 0x9F, CHR 0x90, CHR 0x8D] ''3.9+'')
       \<lparr>t_dependencies := Some (map requirement_name (requirements_of content))\<rparr>"

definition goEntry :: "string \<Rightarrow> tech_entry" where
  "goEntry goModContent =
     plainEntry ''Go'' [CHR 0xF0, CHR 0x9F, CHR 0x90, CHR 0xB9]
       (case first_match go_version_at goModContent of Some v \<Rightarrow> v | None \<Rightarrow> ''latest'')"

definition javaEntry :: "bool \<Rightarrow> tech_entry" where
  "javaEntry hasPom =
     (plainEntry ''Java'' [CHR 0xE2, CHR 0x98, CHR 0x95] ''11+'')
       \<lparr>t_buildTool := Some (if hasPom then ''Maven'' else ''Gradle'')\<rparr>"

definition rubyEntry :: "string \<Rightarrow> tech_entry" where
  "rubyEntry gemfile =
     plainEntry ''Ruby'' [CHR 0xF0, CHR 0x9F, CHR 0x92, CHR 0x8E]
       (case first_match ruby_version_at gemfile of Some v \<Rightarrow> v | None \<Rightarrow> ''latest'')"

definition rustEntry :: tech_entry where
  "rustEntry = plainEntry ''Rust'' [CHR 0xF0, CHR 0x9F, CHR 0xA6, CHR 0x80] ''latest''"

definition phpEntry :: tech_entry where
  "phpEntry = plainEntry ''PHP'' [CHR 0xF0, CHR 0x9F, CHR 0x90, CHR 0x98] ''8.1+''"

definition dartEntry :: tech_entry where
  "dartEntry = plainEntry ''Dart/Flutter'' [CHR 0xF0, CHR 0x9F, CHR 0x8E, CHR 0xAF] ''latest''"

definition dockerEntry :: tech_entry where
  "dockerEntry = plainEntry ''Docker'' [CHR 0xF0, CHR 0x9F, CHR 0x90, CHR 0xB3] ''latest''"

text \<open>
  The Node.js block is the only one that can throw: \<open>JSON.parse\<close> on a text that is
  not JSON, or the property read on \<open>null\<close>. Nothing in \<open>detectTechStack\<close> catches it.
\<close>

definition nodeDetection :: "(string \<Rightarrow> string option) \<Rightarrow> error + tech_entry list" where
  "nodeDetection configFiles =
     (if present configFiles ''package.json'' then
        (case JSON_parse (content_of configFiles ''package.json'') of
           None \<Rightarrow> Inl SyntaxError
         | Some packageJson \<Rightarrow>
             (case nodeEntry packageJson of Inl e \<Rightarrow> Inl e | Inr entry \<Rightarrow> Inr [entry]))
      else Inr [])"

text \<open>The blocks after the Node.js one, in the order of the source.\<close>

definition otherDetections ::
  "(string \<Rightarrow> string option) \<Rightarrow> file_entry list \<Rightarrow> tech_entry list" where
  "otherDetections configFiles files =
     (if present configFiles ''requirements.txt''
      then [pythonEntry (content_of configFiles ''requirements.txt'')] else []) @
     (if present configFiles ''go.mod''
      then [goEntry (content_of configFiles ''go.mod'')] else []) @
     (if present configFiles ''pom.xml'' \<or> present configFiles ''build.gradle''
      then [javaEntry (present configFiles ''pom.xml'')] else []) @
     (if present configFiles ''Gemfile''
      then [rubyEntry (content_of configFiles ''Gemfile'')] else []) @
     (if present configFiles ''Cargo.toml'' then [rustEntry] else []) @
     (if present configFiles ''composer.json'' \<or>
         list_ex (\<lambda>f. endsWith (f_path f) ''.php'') files
      then [phpEntry] else []) @
     (if present configFiles ''pubspec.yaml'' then [dartEntry] else []) @
     (if list_ex (\<lambda>f. f_path f = ''Dockerfile'') files then [dockerEntry] else [])"

definition detectTechStack ::
  "(string \<Rightarrow> string option) \<Rightarrow> file_entry list \<Rightarrow> error + tech_entry list" where
  "detectTechStack fetch files =
     (let configFiles = fetchConfigFiles fetch files
      in case nodeDetection configFiles of
           Inl e \<Rightarrow> Inl e
         | Inr node \<Rightarrow> Inr (node @ otherDetections configFiles files))"

subsection \<open>detectServices\<close>

definition hasDatabase :: "file_entry list \<Rightarrow> bool" where
  "hasDatabase files =
     list_ex (\<lambda>f. str_includes (f_path f) ''database'' \<or>
                   str_includes (f_path f) ''db'' \<or>
                   str_includes (f_path f) ''migration'') files"

definition hasRedis :: "file_entry list \<Rightarrow> bool" where
  "hasRedis files = list_ex (\<lambda>f. str_includes (f_path f) ''redis'') files"

definition hasWeb :: "file_entry list \<Rightarrow> bool" where
  "hasWeb files =
     list_ex (\<lambda>f. str_includes (f_path f) ''server'' \<or>
                   str_includes (f_path f) ''app'' \<or>
                   f_name f = ''index.js'' \<or>
                   f_name f = ''main.py'' \<or>
                   f_name f = ''app.py'') files"

definition detectServices :: "file_entry list \<Rightarrow> service_entry list" where
  "detectServices files =
     (if hasDatabase files
      then [\<lparr>s_name = ''Database'', s_type = ''postgres'', s_port = 5432\<rparr>] else []) @
     (if hasRedis files
      then [\<lparr>s_name = ''Redis'', s_type = ''redis'', s_port = 6379\<rparr>] else []) @
     (if hasWeb files
      then [\<lparr>s_name = ''Web Server'', s_type = ''web'', s_port = 3000\<rparr>] else [])"

subsection \<open>estimateSetupTime\<close>

text \<open>
  \<open>minutes\<close> is a JavaScript number that only takes multiples of one half here, which
  doubles hold exactly for every array length; it is a rational in the model. The
  function reads only the lengths of its two arguments.
\<close>

definition minutes_of :: "'a list \<Rightarrow> 'b list \<Rightarrow> rat" where
  "minutes_of techStack services =
     1 + of_nat (length techStack) * (1 / 2) + of_nat (length services) * 1"

definition estimateSetupTime :: "'a list \<Rightarrow> 'b list \<Rightarrow> string" where
  "estimateSetupTime techStack services =
     (let minutes = minutes_of techStack services in
      if minutes < 2 then ''1-2 minutes''
      else if minutes < 5 then ''2-5 minutes''
      else if minutes < 10 then ''5-10 minutes''
      else ''10+ minutes'')"

subsection \<open>analyzeRepository\<close>

definition extractPorts :: "service_entry list \<Rightarrow> nat list" where
  "extractPorts services = map s_port services"

text \<open>
  The owner, the name, the description and the file listing come from the URL and the
  hosting service and are arguments here. Whatever the body throws is thrown again as
  a failure of the analysis.
\<close>

definition analyzeRepository ::
  "(string \<Rightarrow> string option) \<Rightarrow> string \<Rightarrow> string \<Rightarrow> string \<Rightarrow> file_entry list \<Rightarrow>
   error + repo_data" where
  "analyzeRepository fetch owner repo description files =
     (case detectTechStack fetch files of
        Inl e \<Rightarrow> Inl (AnalysisFailed e)
      | Inr techStack \<Rightarrow>
          (let services = detectServices files
           in Inr \<lparr>r_owner = owner,
                    r_name = repo,
                    r_description = description,
                    r_files = map f_path files,
                    r_techStack = techStack,
                    r_services = services,
                    r_ports = extractPorts services,
                    r_hasDocker = list_ex (\<lambda>f. f_path f = ''Dockerfile'') files,
                    r_hasTests = list_ex (\<lambda>f. str_includes (f_path f) ''test'') files,
                    r_estimatedSetupTime = estimateSetupTime techStack services\<rparr>))"

text \<open>The position of a reported range among the four ranges, shortest first.\<close>

definition bucket_rank :: "string \<Rightarrow> nat" where
  "bucket_rank b =
     (if b = ''1-2 minutes'' then 0
      else if b = ''2-5 minutes'' then 1
      else if b = ''5-10 minutes'' then 2
      else 3)"

section \<open>LabspaceGenerator\<close>

text \<open>
  A block of \<open>compose.services\<close>; a field that a block does not have is \<open>None\<close>.
\<close>

record service_block =
  b_build :: "string option"
  b_image :: "string option"
  b_ports :: "string list"
  b_volumes :: "string list option"
  b_environment :: "string list option"
  b_depends_on :: "string list option"

text \<open>
  The object \<open>compose\<close>: \<open>services\<close> keeps its blocks under their keys in the order they
  were set; \<open>volumes\<close>, when set, holds the named volumes, each an empty object.
\<close>

record compose =
  c_version :: string
  c_services :: "(string \<times> service_block) list"
  c_volumes :: "string list option"


definition nl :: string where
  "nl = [CHR 0x0A]"

subsection \<open>generateDockerCompose\<close>

text \<open>
  \<open>services.find(s => s.type === 'web')?.port || 3000\<close>: the port of the first entry of
  type \<open>web\<close>, and 3000 when there is none or when that port is 0.
\<close>

definition appPort :: "service_entry list \<Rightarrow> nat" where
  "appPort services =
     (case find (\<lambda>s. s_type s = ''web'') services of
        Some s \<Rightarrow> if s_port s = 0 then 3000 else s_port s
      | None \<Rightarrow> 3000)"

definition appBlock :: "service_entry list \<Rightarrow> service_block" where
  "appBlock services =
     \<lparr>b_build = Some ''.'',
      b_image = None,
      b_ports = [show_nat (appPort services) @ '':'' @ show_nat (appPort services)],
      b_volumes = Some [''.:/workspace''],
      b_environment = Some [''NODE_ENV=development''],
      b_depends_on = Some []\<rparr>"

definition dbBlock :: service_block where
  "dbBlock =
     \<lparr>b_build = None,
      b_image = Some ''postgres:13'',
      b_ports = [''5432:5432''],
      b_volumes = Some [''db_data:/var/lib/postgresql/data''],
      b_environment = Some [''POSTGRES_DB=appdb'', ''POSTGRES_USER=user'',
                            ''POSTGRES_PASSWORD=password''],
      b_depends_on = None\<rparr>"

definition redisBlock :: service_block where
  "redisBlock =
     \<lparr>b_build = None,
      b_image = Some ''redis:6-alpine'',
      b_ports = [''6379:6379''],
      b_volumes = None,
      b_environment = None,
      b_depends_on = None\<rparr>"

text \<open>\<open>if (compose.services.app) compose.services.app.depends_on.push(d)\<close>.\<close>

definition push_dependency ::
  "string \<Rightarrow> (string \<times> service_block) list \<Rightarrow> (string \<times> service_block) list" where
  "push_dependency d blocks =
     map (\<lambda>(k, b). if k = ''app''
                     then (k, b\<lparr>b_depends_on := map_option (\<lambda>ds. ds @ [d]) (b_depends_on b)\<rparr>)
                     else (k, b)) blocks"

text \<open>
  The object that \<open>generateDockerCompose\<close> builds, step by step as the source does:
  the application block when \<open>techStack[0]\<close> exists, the database block, the cache
  block, the volumes.
\<close>

definition composeObject :: "repo_data \<Rightarrow> compose" where
  "composeObject repoData =
     (let techStack = r_techStack repoData;
          services = r_services repoData;
          s1 = (if techStack \<noteq> [] then [(''app'', appBlock services)] else []);
          s2 = (if list_ex (\<lambda>s. s_name s = ''Database'') services
                then push_dependency ''db'' (s1 @ [(''db'', dbBlock)]) else s1);
          s3 = (if list_ex (\<lambda>s. s_name s = ''Redis'') services
                then push_dependency ''redis'' (s2 @ [(''redis'', redisBlock)]) else s2)
      in \<lparr>c_version = ''3.8'',
          c_services = s3,
          c_volumes = (if list_ex (\<lambda>s. s_name s = ''Database'') services
                       then Some [''db_data''] else None)\<rparr>)"


subsection \<open>generateDevContainer\<close>





subsection \<open>generateVSCodeSettings and generateVSCodeExtensions\<close>






subsection \<open>generateReadme\<close>









subsection \<open>generateStartupScript\<close>









subsection \<open>generateLabspace\<close>




section \<open>Notions used in the statements\<close>


text \<open>
  The condition under which \<open>detectTechStack\<close> pushes the entry of a given name, read
  off its \<open>if\<close> statements.
\<close>

definition triggered :: "(string \<Rightarrow> string option) \<Rightarrow> file_entry list \<Rightarrow> string \<Rightarrow> bool" where
  "triggered configFiles files n =
     (if n = ''Node.js'' then present configFiles ''package.json''
      else if n = ''Python'' then present configFiles ''requirements.txt''
      else if n = ''Go'' then present configFiles ''go.mod''
      else if n = ''Java'' then present configFiles ''pom.xml'' \<or> present configFiles ''build.gradle''
      else if n = ''Ruby'' then present configFiles ''Gemfile''
      else if n = ''Rust'' then present configFiles ''Cargo.toml''
      else if n = ''PHP'' then present configFiles ''composer.json'' \<or>
                               list_ex (\<lambda>f. endsWith (f_path f) ''.php'') files
      else if n = ''Dart/Flutter'' then present configFiles ''pubspec.yaml''
      else if n = ''Docker'' then list_ex (\<lambda>f. f_path f = ''Dockerfile'') files
      else False)"

text \<open>The order in which the blocks of \<open>detectTechStack\<close> stand in the source.\<close>

definition source_trigger_order :: "string list" where
  "source_trigger_order =
     [''Node.js'', ''Python'', ''Go'', ''Java'', ''Ruby'', ''Rust'', ''PHP'', ''Dart/Flutter'',
      ''Docker'']"

text \<open>
  The order the specification gives to the trigger table, with the names the program
  uses for the entries (the container runtime is \<open>Docker\<close>).
\<close>

definition spec_trigger_order :: "string list" where
  "spec_trigger_order =
     [''Node.js'', ''Python'', ''Docker'', ''Java'', ''Go'', ''Ruby'', ''PHP'', ''Rust'', ''.NET'',
      ''Dart/Flutter'']"



text \<open>The ports of the blocks of the orchestration document, under their keys.\<close>

definition block_ports :: "compose \<Rightarrow> (string \<times> string list) list" where
  "block_ports c = map (\<lambda>kb. (fst kb, b_ports (snd kb))) (c_services c)"

section \<open>Inputs of the examples\<close>



text \<open>A Go module file that declares \<open>go 1.21\<close>, alone or beside other files.\<close>

definition go_mod_text :: string where
  "go_mod_text = ''module example.com/hello'' @ nl @ nl @ ''go 1.21'' @ nl"

definition go_fetch :: "string \<Rightarrow> string option" where
  "go_fetch k = (if k = ''go.mod'' then Some go_mod_text else None)"

definition go_mod_file :: file_entry where
  "go_mod_file = \<lparr>f_path = ''go.mod'', f_name = ''go.mod'', f_size = 34\<rparr>"

definition main_go_file :: file_entry where
  "main_go_file = \<lparr>f_path = ''cmd/server/main.go'', f_name = ''main.go'', f_size = 120\<rparr>"

definition go_listing :: "file_entry list" where
  "go_listing = [go_mod_file, main_go_file]"

definition go_docker_listing :: "file_entry list" where
  "go_docker_listing =
     [go_mod_file, \<lparr>f_path = ''Dockerfile'', f_name = ''Dockerfile'', f_size = 200\<rparr>]"


definition database_entry :: service_entry where
  "database_entry = \<lparr>s_name = ''Database'', s_type = ''postgres'', s_port = 5432\<rparr>"

definition web_entry :: service_entry where
  "web_entry = \<lparr>s_name = ''Web Server'', s_type = ''web'', s_port = 3000\<rparr>"

definition go_entry :: tech_entry where
  "go_entry = plainEntry ''Go'' [CHR 0xF0, CHR 0x9F, CHR 0x90, CHR 0xB9] ''1.21''"

text \<open>What the analysis of \<open>go_db_listing\<close> returns.\<close>

definition go_db_profile :: repo_data where
  "go_db_profile =
     \<lparr>r_owner = ''acme'', r_name = ''shop'', r_description = ''demo'',
      r_files = [''go.mod'', ''db/schema.sql'', ''cmd/server/main.go''],
      r_techStack = [go_entry],
      r_services = [database_entry, web_entry],
      r_ports = [5432, 3000],
      r_hasDocker = False, r_hasTests = False,
      r_estimatedSetupTime = ''2-5 minutes''\<rparr>"

text \<open>A profile with a database entry and no stack entry.\<close>

definition database_only_profile :: repo_data where
  "database_only_profile =
     \<lparr>r_owner = ''acme'', r_name = ''data'', r_description = '''',
      r_files = [''db/schema.sql''],
      r_techStack = [],
      r_services = [database_entry],
      r_ports = [5432],
      r_hasDocker = False, r_hasTests = False,
      r_estimatedSetupTime = ''2-5 minutes''\<rparr>"




text \<open>A package descriptor that is not JSON.\<close>

definition package_file :: file_entry where
  "package_file = \<lparr>f_path = ''package.json'', f_name = ''package.json'', f_size = 1\<rparr>"

definition broken_fetch :: "string \<Rightarrow> string option" where
  "broken_fetch k = (if k = ''package.json'' then Some ''{'' else None)"

text \<open>A package descriptor that is the JSON text \<open>null\<close>.\<close>

definition null_fetch :: "string \<Rightarrow> string option" where
  "null_fetch k = (if k = ''package.json'' then Some ''null'' else None)"










section \<open>Properties of the analyzer\<close>

subsection \<open>Lemmas on texts and on the fetched files\<close>


lemma digit_chars:
  "digit_char 0 = CHR ''0''" "digit_char 1 = CHR ''1''" "digit_char 2 = CHR ''2''"
  "digit_char 3 = CHR ''3''" "digit_char 4 = CHR ''4''" "digit_char 5 = CHR ''5''"
  "digit_char 6 = CHR ''6''" "digit_char 7 = CHR ''7''" "digit_char 8 = CHR ''8''"
  "digit_char 9 = CHR ''9''"
  by code_simp+

lemma show_nat_3000: "show_nat 3000 = ''3000''"
  by (simp add: show_nat.simps digit_chars)




lemma split_acc_not_empty: "split_acc sep acc s \<noteq> []"
proof (induction s arbitrary: acc)
  case Nil
  show ?case by simp
next
  case (Cons c cs)
  show ?case
    by (cases "sep \<noteq> [] \<and> prefix sep (c # cs)") (simp_all add: Cons.IH)
qed

lemma split_not_empty: "split s sep \<noteq> []"
  by (simp add: split_def split_acc_not_empty)







text \<open>
  The lexers leave less than they were given, so the tests on the lengths in
  \<open>tokenize\<close> never fail.
\<close>

lemma lex_string_shorter: "lex_string acc s = Some (t, r) \<Longrightarrow> length r < length s"
proof (induction acc s arbitrary: t r rule: lex_string.induct)
  case (1 acc)
  then show ?case by simp
next
  case (2 acc c cs)
  note IH = "2.IH" and prems = "2.prems"
  show ?case
  proof (cases "c = CHR 0x22")
    case True
    with prems show ?thesis by simp
  next
    case quote: False
    show ?thesis
    proof (cases "c = CHR 0x5C")
      case False
      with quote prems have "lex_string (c # acc) cs = Some (t, r)"
        by (simp split: if_splits)
      with IH(9) [OF quote False] prems quote False have "length r < length cs"
        by (simp split: if_splits)
      then show ?thesis by simp
    next
      case True
      with quote prems obtain e r0 where cs: "cs = e # r0"
        by (cases cs) auto
      note h = IH(1-8) [OF quote True cs]
      show ?thesis
      proof (cases "e = CHR ''u''")
        case False
        with quote True cs prems h(1-6) have "length r < length r0"
          by (simp split: if_splits)
        with cs show ?thesis by simp
      next
        case u: True
        with quote True cs prems obtain h1 h2 h3 h4 r1 v where
          r0: "r0 = h1 # h2 # h3 # h4 # r1" and hx: "hex4 h1 h2 h3 h4 = Some v"
          by (auto split: list.splits option.splits)
        have e: "\<not> (e = CHR 0x22 \<or> e = CHR 0x5C \<or> e = CHR ''/'')" "e \<noteq> CHR ''b''" "e \<noteq> CHR ''f''"
          "e \<noteq> CHR ''n''" "e \<noteq> CHR ''r''" "e \<noteq> CHR ''t''"
          using u by simp_all
        show ?thesis
        proof (cases "0xD800 \<le> v \<and> v \<le> 0xDBFF \<and> low_surrogate r1 \<noteq> None")
          case True
          with quote \<open>c = CHR 0x5C\<close> cs u r0 hx prems have
            "lex_string (rev (utf8 (0x10000 + (v - 0xD800) * 1024 +
                (fst (the (low_surrogate r1)) - 0xDC00))) @ acc) (drop 6 r1) = Some (t, r)"
            by simp
          with h(7) [OF e u r0 refl refl refl hx True] have "length r < length (drop 6 r1)"
            by simp
          with cs r0 show ?thesis by simp
        next
          case False
          with quote \<open>c = CHR 0x5C\<close> cs u r0 hx prems have
            "lex_string (rev (utf8 v) @ acc) r1 = Some (t, r)"
            by (simp split: if_splits)
          with h(8) [OF e u r0 refl refl refl hx False] have "length r < length r1"
            by simp
          with cs r0 show ?thesis by simp
        qed
      qed
    qed
  qed
qed

lemma lex_number_shorter:
  assumes "lex_number s = Some (t, r)"
  shows "length r < length s"
proof -
  define neg where "neg = (case s of c # _ \<Rightarrow> c = CHR ''-'' | [] \<Rightarrow> False)"
  define s1 where "s1 = (if neg then drop 1 s else s)"
  define ip where "ip = (case s1 of c # _ \<Rightarrow> if c = CHR ''0'' then [c] else takeWhile is_digit s1
                         | [] \<Rightarrow> [])"
  define s2 where "s2 = drop (length ip) s1"
  define has_frac where "has_frac = (case s2 of c # _ \<Rightarrow> c = CHR ''.'' | [] \<Rightarrow> False)"
  define fp where "fp = (if has_frac then takeWhile is_digit (drop 1 s2) else [])"
  define s3 where "s3 = (if has_frac then drop (1 + length fp) s2 else s2)"
  define has_exp where "has_exp = (case s3 of c # _ \<Rightarrow> c = CHR ''e'' \<or> c = CHR ''E'' | [] \<Rightarrow> False)"
  define s4 where "s4 = (if has_exp then drop 1 s3 else s3)"
  define esigned where
    "esigned = (has_exp \<and> (case s4 of c # _ \<Rightarrow> c = CHR ''-'' \<or> c = CHR ''+'' | [] \<Rightarrow> False))"
  define s5 where "s5 = (if esigned then drop 1 s4 else s4)"
  define ep where "ep = (if has_exp then takeWhile is_digit s5 else [])"
  define s6 where "s6 = drop (length ep) s5"
  define eneg where
    "eneg = (has_exp \<and> (case s4 of c # _ \<Rightarrow> c = CHR ''-'' | [] \<Rightarrow> False))"
  define m where "m = digits_val (ip @ fp)"
  define ex where "ex = digits_val ep"
  have eq: "lex_number s =
     (if ip = [] \<or> (has_frac \<and> fp = []) \<or> (has_exp \<and> ep = []) then None
      else Some (TNumber (if neg then - m else m)
                         ((if eneg then - ex else ex) - int (length fp)), s6))"
    unfolding lex_number_def Let_def neg_def s1_def ip_def s2_def has_frac_def fp_def s3_def
      has_exp_def s4_def esigned_def s5_def ep_def s6_def eneg_def m_def ex_def
    by (rule refl)
  from assms have ip: "ip \<noteq> []" and r: "r = s6"
    unfolding eq by (simp_all split: if_splits)
  have "length ip \<le> length s1"
    by (cases s1) (simp_all add: ip_def length_takeWhile_le)
  moreover from ip have "0 < length ip"
    by simp
  ultimately have "length s2 < length s1"
    unfolding s2_def length_drop by linarith
  moreover have "length s1 \<le> length s"
    by (simp add: s1_def)
  moreover have "length s6 \<le> length s2"
    by (simp add: s6_def s5_def s4_def s3_def)
  ultimately show ?thesis
    by (simp add: r)
qed

lemma tokenize_string:
  assumes "lex_string [] cs = Some (s, r)"
  shows "tokenize (CHR 0x22 # cs) = map_option (Cons (TString s)) (tokenize r)"
  using assms lex_string_shorter [OF assms] by (simp add: json_space_def)

lemma tokenize_number:
  assumes "c = CHR ''-'' \<or> is_digit c" and "lex_number (c # cs) = Some (t, r)"
  shows "tokenize (c # cs) = map_option (Cons t) (tokenize r)"
proof -
  have "\<not> json_space c" and "c \<notin> {CHR ''{'', CHR ''}'', CHR ''['', CHR '']'', CHR '':'', CHR '','', CHR 0x22}"
    using assms(1) by (auto simp: json_space_def is_digit_def)
  then show ?thesis
    using assms lex_number_shorter [OF assms(2)] by simp
qed

subsection \<open>The estimate of the setup time and the ports of the services\<close>

lemma estimate_rank:
  "bucket_rank (estimateSetupTime ts ss) =
     (if minutes_of ts ss < 2 then 0 else if minutes_of ts ss < 5 then 1
      else if minutes_of ts ss < 10 then 2 else 3)"
  by (simp add: estimateSetupTime_def bucket_rank_def Let_def)

lemma minutes_mono:
  "length ts \<le> length ts' \<Longrightarrow> length ss \<le> length ss' \<Longrightarrow>
   minutes_of ts ss \<le> minutes_of ts' ss'"
  by (simp add: minutes_of_def add_mono)

text \<open>
  Claim C6. The estimate is the count-based formula: one unit, plus one half per stack
  entry, plus one per service entry, reported as ``1-2 minutes'' below 2, ``2-5 minutes''
  below 5, ``5-10 minutes'' below 10 and ``10+ minutes'' otherwise; and the reported
  range never moves down when the stack gets longer with the same services, or when the
  services get longer with the same stack.
\<close>

theorem setup_time_formula_monotonic:
  "estimateSetupTime ts ss =
     (if 1 + of_nat (length ts) / 2 + of_nat (length ss) < (2::rat) then ''1-2 minutes''
      else if 1 + of_nat (length ts) / 2 + of_nat (length ss) < (5::rat) then ''2-5 minutes''
      else if 1 + of_nat (length ts) / 2 + of_nat (length ss) < (10::rat) then ''5-10 minutes''
      else ''10+ minutes'')
   \<and> (length ts \<le> length ts' \<longrightarrow>
        bucket_rank (estimateSetupTime ts ss) \<le> bucket_rank (estimateSetupTime ts' ss))
   \<and> (length ss \<le> length ss' \<longrightarrow>
        bucket_rank (estimateSetupTime ts ss) \<le> bucket_rank (estimateSetupTime ts ss'))"
proof (intro conjI impI)
  show "estimateSetupTime ts ss =
     (if 1 + of_nat (length ts) / 2 + of_nat (length ss) < (2::rat) then ''1-2 minutes''
      else if 1 + of_nat (length ts) / 2 + of_nat (length ss) < (5::rat) then ''2-5 minutes''
      else if 1 + of_nat (length ts) / 2 + of_nat (length ss) < (10::rat) then ''5-10 minutes''
      else ''10+ minutes'')"
    by (simp add: estimateSetupTime_def minutes_of_def Let_def)
next
  assume "length ts \<le> length ts'"
  then have "minutes_of ts ss \<le> minutes_of ts' ss"
    by (rule minutes_mono) simp
  then show "bucket_rank (estimateSetupTime ts ss) \<le> bucket_rank (estimateSetupTime ts' ss)"
    unfolding estimate_rank by (simp split: if_splits)
next
  assume "length ss \<le> length ss'"
  then have "minutes_of ts ss \<le> minutes_of ts ss'"
    by (intro minutes_mono) simp_all
  then show "bucket_rank (estimateSetupTime ts ss) \<le> bucket_rank (estimateSetupTime ts ss')"
    unfolding estimate_rank by (simp split: if_splits)
qed

theorem setup_time_formula_monotonic_witness:
  "estimateSetupTime [1, 2 :: nat] [True] = ''2-5 minutes''
   \<and> length [1, 2 :: nat] \<le> length [1, 2, 3, 4, 5, 6 :: nat]
   \<and> bucket_rank (estimateSetupTime [1, 2 :: nat] [True]) = 1
   \<and> bucket_rank (estimateSetupTime [1, 2, 3, 4, 5, 6 :: nat] [True]) = 2
   \<and> length [True] \<le> length [True, False]
   \<and> bucket_rank (estimateSetupTime [1, 2 :: nat] [True, False]) = 1"
  using setup_time_formula_monotonic
    [of "[1, 2 :: nat]" "[True]" "[1, 2, 3, 4, 5, 6 :: nat]" "[True, False]"]
  by (simp add: estimateSetupTime_def minutes_of_def bucket_rank_def)

text \<open>
  Claim C9. In the results of any two analyses, two service entries of the same type
  carry the same port: the relational database (type \<open>postgres\<close>) always 5432, the
  in-memory cache (type \<open>redis\<close>) always 6379, the generic web server (type \<open>web\<close>)
  always 3000. The port is a constant of the entry and no file content is read.
\<close>

theorem service_ports_static:
  "s \<in> set (detectServices files) \<Longrightarrow> s' \<in> set (detectServices files') \<Longrightarrow>
   s_type s = s_type s' \<Longrightarrow>
   s_port s = s_port s' \<and>
   (s_type s = ''postgres'' \<longrightarrow> s_port s = 5432) \<and>
   (s_type s = ''redis'' \<longrightarrow> s_port s = 6379) \<and>
   (s_type s = ''web'' \<longrightarrow> s_port s = 3000) \<and>
   s_type s \<in> {''postgres'', ''redis'', ''web''}"
  by (auto simp: detectServices_def split: if_splits)

theorem service_ports_static_witness:
  "\<lparr>s_name = ''Database'', s_type = ''postgres'', s_port = 5432\<rparr>
     \<in> set (detectServices [\<lparr>f_path = ''db/schema.sql'', f_name = ''schema.sql'', f_size = 10\<rparr>])
   \<and> \<lparr>s_name = ''Database'', s_type = ''postgres'', s_port = 5432\<rparr>
     \<in> set (detectServices [\<lparr>f_path = ''migrations/001.sql'', f_name = ''001.sql'', f_size = 7\<rparr>,
                             \<lparr>f_path = ''redis.conf'', f_name = ''redis.conf'', f_size = 3\<rparr>])
   \<and> s_port \<lparr>s_name = ''Database'', s_type = ''postgres'', s_port = 5432\<rparr> = 5432"
  using service_ports_static
    [of "\<lparr>s_name = ''Database'', s_type = ''postgres'', s_port = 5432\<rparr>"
        "[\<lparr>f_path = ''db/schema.sql'', f_name = ''schema.sql'', f_size = 10\<rparr>]"
        "\<lparr>s_name = ''Database'', s_type = ''postgres'', s_port = 5432\<rparr>"
        "[\<lparr>f_path = ''migrations/001.sql'', f_name = ''001.sql'', f_size = 7\<rparr>,
          \<lparr>f_path = ''redis.conf'', f_name = ''redis.conf'', f_size = 3\<rparr>]"]
  by (simp add: detectServices_def hasDatabase_def hasRedis_def hasWeb_def)

lemma foldl_fetch_apply:
  "foldl (\<lambda>configFiles fileName.
              if list_ex (\<lambda>f. f_path f = fileName) files then
                (case fetch fileName of
                   Some content \<Rightarrow> configFiles(fileName \<mapsto> content)
                 | None \<Rightarrow> configFiles)
              else configFiles) m ks k =
   (if k \<in> set ks \<and> list_ex (\<lambda>f. f_path f = k) files \<and> fetch k \<noteq> None then fetch k else m k)"
  by (induction ks arbitrary: m) (auto split: option.splits)

lemma fetchConfigFiles_apply:
  "fetchConfigFiles fetch files k =
     (if k \<in> set keyFiles \<and> list_ex (\<lambda>f. f_path f = k) files then fetch k else None)"
  unfolding fetchConfigFiles_def foldl_fetch_apply by auto


subsection \<open>The order of the stack entries\<close>

lemma nodeEntry_name: "nodeEntry packageJson = Inr e \<Longrightarrow> t_name e = ''Node.js''"
  by (cases "packageJson = JNull") (auto simp: nodeEntry_def)

lemma nodeDetection_names:
  "nodeDetection configFiles = Inr node \<Longrightarrow>
   map t_name node = (if present configFiles ''package.json'' then [''Node.js''] else [])"
  by (auto simp: nodeDetection_def dest: nodeEntry_name split: if_splits option.splits sum.splits)

lemma otherDetections_names:
  "map t_name (otherDetections configFiles files) =
     (if present configFiles ''requirements.txt'' then [''Python''] else []) @
     (if present configFiles ''go.mod'' then [''Go''] else []) @
     (if present configFiles ''pom.xml'' \<or> present configFiles ''build.gradle''
      then [''Java''] else []) @
     (if present configFiles ''Gemfile'' then [''Ruby''] else []) @
     (if present configFiles ''Cargo.toml'' then [''Rust''] else []) @
     (if present configFiles ''composer.json'' \<or>
         list_ex (\<lambda>f. endsWith (f_path f) ''.php'') files
      then [''PHP''] else []) @
     (if present configFiles ''pubspec.yaml'' then [''Dart/Flutter''] else []) @
     (if list_ex (\<lambda>f. f_path f = ''Dockerfile'') files then [''Docker''] else [])"
  unfolding otherDetections_def map_append
  by (simp add: pythonEntry_def goEntry_def javaEntry_def rubyEntry_def rustEntry_def
        phpEntry_def dartEntry_def dockerEntry_def plainEntry_def)

lemma filter_Cons_append: "filter P (x # xs) = (if P x then [x] else []) @ filter P xs"
  by simp

lemma go_docker_stack:
  "detectTechStack go_fetch go_docker_listing = Inr [go_entry, dockerEntry]"
  by code_simp

text \<open>
  Claim C2, as the specification states it, fails. A listing with a Go module file and
  a \<open>Dockerfile\<close> gives the entries Go, Docker in this order, and the specification
  puts the container runtime before Go.
\<close>

theorem trigger_order_counterexample:
  "detectTechStack go_fetch go_docker_listing = Inr [go_entry, dockerEntry]
   \<and> map t_name [go_entry, dockerEntry] = [''Go'', ''Docker'']
   \<and> \<not> subseq [''Go'', ''Docker''] spec_trigger_order"
  by (simp add: go_docker_stack go_entry_def dockerEntry_def plainEntry_def
        spec_trigger_order_def)

text \<open>
  Claim C2, amended. Whenever detection returns, the names of its entries are the names
  Node.js, Python, Go, Java, Ruby, Rust, PHP, Dart/Flutter, Docker, in this fixed order,
  without those whose trigger is not satisfied: nothing is reordered and nothing is
  repeated.
\<close>

theorem detect_order:
  assumes "detectTechStack fetch files = Inr ts"
  shows "map t_name ts =
           filter (triggered (fetchConfigFiles fetch files) files) source_trigger_order
         \<and> subseq (map t_name ts) source_trigger_order
         \<and> distinct (map t_name ts)"
proof -
  from assms obtain node where
    n: "nodeDetection (fetchConfigFiles fetch files) = Inr node" and
    ts: "ts = node @ otherDetections (fetchConfigFiles fetch files) files"
    by (auto simp: detectTechStack_def Let_def split: sum.splits)
  have eq: "map t_name ts =
          filter (triggered (fetchConfigFiles fetch files) files) source_trigger_order"
    unfolding ts map_append nodeDetection_names [OF n] otherDetections_names
      source_trigger_order_def filter_Cons_append
    by (simp add: triggered_def)
  have "distinct source_trigger_order"
    by (simp add: source_trigger_order_def)
  then have "distinct (map t_name ts)"
    unfolding eq by (rule distinct_filter)
  with eq show ?thesis
    by simp
qed

theorem detect_order_witness:
  "detectTechStack go_fetch go_docker_listing = Inr [go_entry, dockerEntry]
   \<and> map t_name [go_entry, dockerEntry] = [''Go'', ''Docker'']
   \<and> subseq [''Go'', ''Docker''] source_trigger_order"
  using detect_order [OF go_docker_stack]
  by (simp add: go_docker_stack go_entry_def dockerEntry_def plainEntry_def)

subsection \<open>A package descriptor that is not JSON\<close>

lemma broken_parse: "JSON_parse ''{'' = None"
  by code_simp

text \<open>
  The other blocks do not throw on a text they cannot read: the Go block gives the
  version \<open>latest\<close>. And the Node.js block also throws on the text \<open>null\<close>, which
  is JSON.
\<close>

lemma go_block_degrades: "t_version (goEntry ''{'') = JStr ''latest''"
  by code_simp

lemma null_package_json: "detectTechStack null_fetch [package_file] = Inl TypeError"
  by code_simp

text \<open>
  Claim C5 fails on the code. When the listing has \<open>package.json\<close> and the fetched
  text is not JSON, \<open>JSON.parse\<close> throws, nothing catches it in \<open>detectTechStack\<close>, and
  the analysis fails as a whole; no entry with default fields is produced.
\<close>

theorem malformed_package_json_aborts:
  assumes "list_ex (\<lambda>f. f_path f = ''package.json'') files"
    and "fetch ''package.json'' = Some content" and "content \<noteq> []"
    and "JSON_parse content = None"
  shows "detectTechStack fetch files = Inl SyntaxError
         \<and> analyzeRepository fetch owner repo description files =
             Inl (AnalysisFailed SyntaxError)"
proof -
  have "fetchConfigFiles fetch files ''package.json'' = Some content"
    using assms(1,2) by (simp add: fetchConfigFiles_apply keyFiles_def)
  then have "nodeDetection (fetchConfigFiles fetch files) = Inl SyntaxError"
    using assms(3,4) by (simp add: nodeDetection_def present_def content_of_def)
  then have "detectTechStack fetch files = Inl SyntaxError"
    by (simp add: detectTechStack_def)
  then show ?thesis
    by (simp add: analyzeRepository_def)
qed

theorem malformed_package_json_aborts_witness:
  "list_ex (\<lambda>f. f_path f = ''package.json'') [package_file]
   \<and> broken_fetch ''package.json'' = Some ''{''
   \<and> JSON_parse ''{'' = None
   \<and> detectTechStack broken_fetch [package_file] = Inl SyntaxError
   \<and> analyzeRepository broken_fetch ''acme'' ''shop'' ''demo'' [package_file] =
       Inl (AnalysisFailed SyntaxError)"
  using malformed_package_json_aborts
    [of "[package_file]" broken_fetch "''{''" "''acme''" "''shop''" "''demo''"]
  by (simp add: package_file_def broken_fetch_def broken_parse)

subsection \<open>The dependencies of an entry\<close>













section \<open>Properties of the generator\<close>

subsection \<open>The blocks of the orchestration document\<close>

lemma map_of_push_other:
  "k \<noteq> ''app'' \<Longrightarrow> map_of (push_dependency d blocks) k = map_of blocks k"
  by (induction blocks) (auto simp: push_dependency_def)

lemma map_of_push_app:
  "map_of (push_dependency d blocks) ''app'' =
     map_option (\<lambda>b. b\<lparr>b_depends_on := map_option (\<lambda>ds. ds @ [d]) (b_depends_on b)\<rparr>)
       (map_of blocks ''app'')"
  by (induction blocks) (auto simp: push_dependency_def)

lemma go_analysis:
  "analyzeRepository go_fetch owner repo description go_listing =
     Inr \<lparr>r_owner = owner, r_name = repo, r_description = description,
          r_files = [''go.mod'', ''cmd/server/main.go''],
          r_techStack = [go_entry],
          r_services = [web_entry],
          r_ports = [3000],
          r_hasDocker = False, r_hasTests = False,
          r_estimatedSetupTime = ''2-5 minutes''\<rparr>"
proof -
  have "detectTechStack go_fetch go_listing = Inr [go_entry]"
    by code_simp
  moreover have "detectServices go_listing = [web_entry]"
    by code_simp
  moreover have "map f_path go_listing = [''go.mod'', ''cmd/server/main.go'']"
    by code_simp
  moreover have "\<not> list_ex (\<lambda>f. f_path f = ''Dockerfile'') go_listing"
    by code_simp
  moreover have "\<not> list_ex (\<lambda>f. str_includes (f_path f) ''test'') go_listing"
    by code_simp
  moreover have "estimateSetupTime [go_entry] [web_entry] = ''2-5 minutes''"
    by (simp add: estimateSetupTime_def minutes_of_def)
  ultimately show ?thesis
    by (simp add: analyzeRepository_def extractPorts_def web_entry_def)
qed

text \<open>
  Claim C8. For a listing with a Go module file that declares \<open>go 1.21\<close> and with the
  path \<open>cmd/server/main.go\<close>, the analysis returns a profile whose stack is one Go entry
  of version \<open>1.21\<close> and whose services are one web-server entry with port 3000, and
  the orchestration document of that profile has the application block alone, with the
  port mapping \<open>3000:3000\<close>: the same port on the host side and on the container side.
\<close>

theorem go_scenario:
  "\<exists>p. analyzeRepository go_fetch owner repo description go_listing = Inr p \<and>
       map t_name (r_techStack p) = [''Go''] \<and>
       map t_version (r_techStack p) = [JStr ''1.21''] \<and>
       r_services p = [\<lparr>s_name = ''Web Server'', s_type = ''web'', s_port = 3000\<rparr>] \<and>
       appPort (r_services p) = s_port web_entry \<and>
       block_ports (composeObject p) =
         [(''app'', [show_nat (s_port web_entry) @ '':'' @ show_nat (s_port web_entry)])] \<and>
       block_ports (composeObject p) = [(''app'', [''3000:3000''])]"
  by (simp add: go_analysis go_entry_def plainEntry_def web_entry_def composeObject_def
        block_ports_def appBlock_def appPort_def show_nat_3000 Let_def)

theorem go_scenario_witness:
  "\<exists>p. analyzeRepository go_fetch ''acme'' ''hello'' ''a server'' go_listing = Inr p \<and>
       map t_name (r_techStack p) = [''Go''] \<and>
       map t_version (r_techStack p) = [JStr ''1.21''] \<and>
       r_services p = [\<lparr>s_name = ''Web Server'', s_type = ''web'', s_port = 3000\<rparr>] \<and>
       appPort (r_services p) = s_port web_entry \<and>
       block_ports (composeObject p) =
         [(''app'', [show_nat (s_port web_entry) @ '':'' @ show_nat (s_port web_entry)])] \<and>
       block_ports (composeObject p) = [(''app'', [''3000:3000''])]"
  by (rule go_scenario)

text \<open>
  Claim C10. For a profile whose stack is empty, the blocks of the orchestration
  document are the database block, if a service entry is named \<open>Database\<close>, and the
  cache block, if one is named \<open>Redis\<close>, and nothing else: there is no block under
  \<open>app\<close>, and so no block that is built from source, that mounts the workspace or that
  has a dependency list.
\<close>

theorem empty_stack_no_app:
  assumes "r_techStack r = []"
  shows "c_services (composeObject r) =
           (if list_ex (\<lambda>s. s_name s = ''Database'') (r_services r)
            then [(''db'', dbBlock)] else []) @
           (if list_ex (\<lambda>s. s_name s = ''Redis'') (r_services r)
            then [(''redis'', redisBlock)] else [])
         \<and> map_of (c_services (composeObject r)) ''app'' = None
         \<and> (\<forall>kb \<in> set (c_services (composeObject r)).
               b_build (snd kb) = None \<and> b_depends_on (snd kb) = None \<and>
               b_volumes (snd kb) \<noteq> Some [''.:/workspace''] \<and>
               (b_ports (snd kb) = [''5432:5432''] \<or> b_ports (snd kb) = [''6379:6379'']))"
  using assms
  by (auto simp: composeObject_def push_dependency_def dbBlock_def redisBlock_def Let_def)

theorem empty_stack_no_app_witness:
  "r_techStack database_only_profile = []
   \<and> list_ex (\<lambda>s. s_name s = ''Database'') (r_services database_only_profile)
   \<and> c_services (composeObject database_only_profile) = [(''db'', dbBlock)]
   \<and> map_of (c_services (composeObject database_only_profile)) ''app'' = None"
  using empty_stack_no_app [of database_only_profile]
  by (simp add: database_only_profile_def database_entry_def)

text \<open>
  Claim C4, as the specification states it, fails. A profile with a database entry and
  an empty stack gets the database block and the volume, and no application block:
  there is no dependency list for the database to be in.
\<close>

theorem database_without_stack_counterexample:
  "r_services database_only_profile = [database_entry]
   \<and> s_name database_entry = ''Database''
   \<and> r_techStack database_only_profile = []
   \<and> c_services (composeObject database_only_profile) = [(''db'', dbBlock)]
   \<and> c_volumes (composeObject database_only_profile) = Some [''db_data'']
   \<and> map_of (c_services (composeObject database_only_profile)) ''app'' = None"
  by (simp add: database_only_profile_def database_entry_def composeObject_def
        push_dependency_def Let_def)

text \<open>
  Claim C4, amended. For every profile with a service entry named \<open>Database\<close>, the
  orchestration document declares exactly one volume at its root, \<open>db_data\<close>, and has
  the database block under \<open>db\<close>; when the stack is not empty it has the application
  block, whose dependency list contains \<open>db\<close>. For every profile, the volumes are
  declared at the root if and only if the database block was added.
\<close>

theorem database_volume_and_dependency:
  "(list_ex (\<lambda>s. s_name s = ''Database'') (r_services r) \<longrightarrow>
      c_volumes (composeObject r) = Some [''db_data''] \<and>
      map_of (c_services (composeObject r)) ''db'' = Some dbBlock \<and>
      (r_techStack r \<noteq> [] \<longrightarrow>
         (\<exists>a ds. map_of (c_services (composeObject r)) ''app'' = Some a \<and>
                  b_depends_on a = Some ds \<and> ''db'' \<in> set ds)))
   \<and> (c_volumes (composeObject r) \<noteq> None \<longleftrightarrow>
        map_of (c_services (composeObject r)) ''db'' \<noteq> None)"
  by (auto simp: composeObject_def Let_def map_of_push_other map_of_push_app appBlock_def)

lemma go_db_app_block:
  "map_of (c_services (composeObject go_db_profile)) ''app'' =
     Some ((appBlock (r_services go_db_profile))\<lparr>b_depends_on := Some [''db'']\<rparr>)"
  by (simp add: go_db_profile_def database_entry_def web_entry_def composeObject_def Let_def
        map_of_push_app appBlock_def)

theorem database_volume_and_dependency_witness:
  "list_ex (\<lambda>s. s_name s = ''Database'') (r_services go_db_profile)
   \<and> r_techStack go_db_profile \<noteq> []
   \<and> c_volumes (composeObject go_db_profile) = Some [''db_data'']
   \<and> map_of (c_services (composeObject go_db_profile)) ''db'' = Some dbBlock
   \<and> map_of (c_services (composeObject go_db_profile)) ''app'' =
       Some ((appBlock (r_services go_db_profile))\<lparr>b_depends_on := Some [''db'']\<rparr>)"
  using database_volume_and_dependency [of go_db_profile] go_db_app_block
  by (simp add: go_db_profile_def database_entry_def web_entry_def)

subsection \<open>The port of the application in the three documents\<close>

















subsection \<open>The six artifacts of an empty profile\<close>










end
